theory Spec2Isabelle
  imports Main
begin

section \<open>Python values, namespaces and exceptions\<close>

text \<open>
  The repository is Python. The values that reach the modelled functions through the
  options object are strings, integers, booleans, \<^verbatim>\<open>None\<close> and lists of these.
\<close>

datatype pyval =
    PNone
  | PBool bool
  | PInt int
  | PStr string
  | PList "pyval list"
  | PObj string "(string \<times> pyval) list"

text \<open>
  An exception is its class and its argument. The messages of the source are f-strings;
  a message is kept as the sequence of its parts, so that no rendering of a value has to
  be guessed: a literal piece, an interpolated value, an interpolated path and an
  interpolated exception (\<^verbatim>\<open>{e}\<close>). \<open>AttributeError T a\<close> is the interpreter's
  "\<^verbatim>\<open>'T' object has no attribute 'a'\<close>"; \<open>TypeError f\<close> is a type error raised by
  the operation \<open>f\<close> (the interpreter's wording depends on its version and is not
  modelled); \<open>LibraryError m\<close> is any exception raised inside a third-party library.
  All of them are subclasses of \<^verbatim>\<open>Exception\<close>, so \<^verbatim>\<open>except Exception\<close> catches each.
\<close>

datatype pyexc =
    AttributeError string string
  | TypeError string
  | FileNotFoundError "frag list"
  | ValueError "frag list"
  | RuntimeError "frag list"
  | LibraryError string
and frag = Lit string | Val pyval | PathOf string | Exc pyexc

text \<open>\<^verbatim>\<open>bool(v)\<close>: the truth value Python gives a value in \<^verbatim>\<open>or\<close>, \<^verbatim>\<open>not\<close> and \<^verbatim>\<open>if\<close>.\<close>

fun truthy :: "pyval \<Rightarrow> bool" where
  "truthy PNone = False"
| "truthy (PBool b) = b"
| "truthy (PInt i) = (i \<noteq> 0)"
| "truthy (PStr s) = (s \<noteq> [])"
| "truthy (PList vs) = (vs \<noteq> [])"
| "truthy (PObj c kw) = True"

fun type_name :: "pyval \<Rightarrow> string" where
  "type_name PNone = ''NoneType''"
| "type_name (PBool b) = ''bool''"
| "type_name (PInt i) = ''int''"
| "type_name (PStr s) = ''str''"
| "type_name (PList vs) = ''list''"
| "type_name (PObj c kw) = c"

text \<open>
  \<^verbatim>\<open>argparse.Namespace\<close>: a finite map from attribute names to values.
  \<open>attr\<close> is \<^verbatim>\<open>opt.a\<close>, \<open>getattr_default\<close> is \<^verbatim>\<open>getattr(opt, a, d)\<close>.
\<close>

type_synonym namespace = "string \<rightharpoonup> pyval"

definition attr :: "namespace \<Rightarrow> string \<Rightarrow> pyexc + pyval" where
  "attr opt a = (case opt a of None \<Rightarrow> Inl (AttributeError ''Namespace'' a) | Some v \<Rightarrow> Inr v)"

definition getattr_default :: "namespace \<Rightarrow> string \<Rightarrow> pyval \<Rightarrow> pyval" where
  "getattr_default opt a d = (case opt a of None \<Rightarrow> d | Some v \<Rightarrow> v)"

text \<open>\<^verbatim>\<open>str.lower()\<close> on the ASCII letters (a \<open>char\<close> of HOL is one byte).\<close>

definition lower_char :: "char \<Rightarrow> char" where
  "lower_char c =
     (case map_of (zip ''ABCDEFGHIJKLMNOPQRSTUVWXYZ'' ''abcdefghijklmnopqrstuvwxyz'') c of
        None \<Rightarrow> c
      | Some l \<Rightarrow> l)"

definition lower :: "string \<Rightarrow> string" where
  "lower s = map lower_char s"

section \<open>utils/preprocessing.py: DocumentProcessor\<close>

text \<open>
  A \<^verbatim>\<open>pathlib.Path\<close> met during the scan, by the three attributes the code reads:
  \<^verbatim>\<open>str(path)\<close>, \<^verbatim>\<open>path.name\<close> and \<^verbatim>\<open>path.suffix\<close>.
\<close>

record fpath =
  p_str :: string
  p_name :: string
  p_suffix :: string

text \<open>A LangChain \<^verbatim>\<open>Document\<close>: its text and its metadata dictionary.\<close>

record document =
  page_content :: string
  metadata :: "string \<rightharpoonup> pyval"

text \<open>
  What the class calls outside the repository: the file system
  (\<^verbatim>\<open>Path.exists\<close>, \<^verbatim>\<open>Path.rglob("*")\<close> in its iteration order),
  \<^verbatim>\<open>PyPDFLoader(str(path)).load_and_split()\<close>, and
  \<^verbatim>\<open>RecursiveCharacterTextSplitter(chunk_size, chunk_overlap).split_documents(docs)\<close>.
  Each is a parameter; the library calls may raise.
\<close>

record doc_env =
  dir_exists :: "string \<Rightarrow> bool"
  rglob :: "string \<Rightarrow> fpath list"
  load_and_split :: "string \<Rightarrow> pyexc + document list"
  split_documents :: "pyval \<Rightarrow> pyval \<Rightarrow> document list \<Rightarrow> pyexc + document list"

text \<open>
  \<^verbatim>\<open>{e.lower() for e in getattr(self._opt, "extensions", [".pdf"])}\<close>.
  Iterating a list lowers each element, and an element that is no string has no
  \<^verbatim>\<open>lower\<close>; iterating a string yields its characters; nothing else is iterable.
\<close>

fun lower_each :: "pyval list \<Rightarrow> pyexc + string list" where
  "lower_each [] = Inr []"
| "lower_each (PStr s # vs) =
     (case lower_each vs of Inl e \<Rightarrow> Inl e | Inr r \<Rightarrow> Inr (lower s # r))"
| "lower_each (v # vs) = Inl (AttributeError (type_name v) ''lower'')"

fun extension_set :: "pyval \<Rightarrow> pyexc + string list" where
  "extension_set (PList vs) = lower_each vs"
| "extension_set (PStr s) = Inr (map (\<lambda>c. lower [c]) s)"
| "extension_set v = Inl (TypeError ''iter'')"

text \<open>\<^verbatim>\<open>_load_pdf\<close>: the pages of one PDF, each tagged with its source.\<close>

definition load_pdf :: "doc_env \<Rightarrow> fpath \<Rightarrow> pyexc + document list" where
  "load_pdf env path =
     (case load_and_split env (p_str path) of
        Inl e \<Rightarrow> Inl e
      | Inr pages \<Rightarrow>
          Inr (map (\<lambda>p. p\<lparr>metadata := (metadata p)(''source'' \<mapsto> PStr (p_str path),
                                                  ''file_name'' \<mapsto> PStr (p_name path))\<rparr>) pages))"

text \<open>
  The loop of \<^verbatim>\<open>_load_all_documents\<close> over \<^verbatim>\<open>input_dir.rglob("*")\<close>, with
  \<open>documents\<close> as accumulator. The class \<^verbatim>\<open>DocumentProcessor\<close> defines
  \<^verbatim>\<open>__init__\<close>, \<^verbatim>\<open>_load_all_documents\<close>, \<^verbatim>\<open>_load_pdf\<close> and
  \<^verbatim>\<open>process_documents\<close> and sets the attribute \<^verbatim>\<open>_opt\<close>, nothing else: the
  lookup \<^verbatim>\<open>self._load_text\<close> on the \<^verbatim>\<open>.txt\<close>/\<^verbatim>\<open>.md\<close> branch raises
  \<^verbatim>\<open>AttributeError\<close>.
\<close>

fun scan :: "doc_env \<Rightarrow> string list \<Rightarrow> fpath list \<Rightarrow> document list \<Rightarrow> pyexc + document list" where
  "scan env exts [] documents = Inr documents"
| "scan env exts (path # paths) documents =
     (if lower (p_suffix path) \<in> set exts then
        (if lower (p_suffix path) = ''.pdf'' then
           (case load_pdf env path of
              Inl e \<Rightarrow> Inl e
            | Inr pages \<Rightarrow> scan env exts paths (documents @ pages))
         else if lower (p_suffix path) \<in> set [''.txt'', ''.md''] then
           Inl (AttributeError ''DocumentProcessor'' ''_load_text'')
         else Inl (ValueError [Lit ''Unsupported file extension: '', Val (PStr (p_suffix path))]))
      else scan env exts paths documents)"

definition load_all_documents :: "doc_env \<Rightarrow> namespace \<Rightarrow> pyexc + document list" where
  "load_all_documents env opt =
     (case attr opt ''input_dir'' of
        Inl e \<Rightarrow> Inl e
      | Inr (PStr input_dir) \<Rightarrow>
          (case extension_set (getattr_default opt ''extensions'' (PList [PStr ''.pdf''])) of
             Inl e \<Rightarrow> Inl e
           | Inr exts \<Rightarrow>
               if \<not> dir_exists env input_dir
               then Inl (FileNotFoundError [Lit ''Input directory not found: '', PathOf input_dir])
               else scan env exts (rglob env input_dir) [])
      | Inr v \<Rightarrow> Inl (TypeError ''Path''))"

text \<open>
  Step 2 of \<^verbatim>\<open>process_documents\<close>: the cleaning loop. Its first statement looks up
  \<^verbatim>\<open>self._clean_text\<close>, which the class does not define, so the first iteration raises.
\<close>

fun clean_docs :: "document list \<Rightarrow> document list \<Rightarrow> pyexc + document list" where
  "clean_docs [] cleaned_docs = Inr cleaned_docs"
| "clean_docs (d # ds) cleaned_docs = Inl (AttributeError ''DocumentProcessor'' ''_clean_text'')"

text \<open>
  Step 4: \<^verbatim>\<open>for idx, doc in enumerate(chunked_docs)\<close> gives each chunk a fresh
  metadata dictionary, the old one extended by three keys. The chunks are distinct
  objects (the splitter creates one \<^verbatim>\<open>Document\<close> per chunk).
\<close>

definition add_chunk_metadata :: "pyval \<Rightarrow> pyval \<Rightarrow> document list \<Rightarrow> document list" where
  "add_chunk_metadata chunk_size chunk_overlap chunked_docs =
     map (\<lambda>(idx, doc). doc\<lparr>metadata := (metadata doc)(''chunk_index'' \<mapsto> PInt (int idx),
                                                     ''chunk_size'' \<mapsto> chunk_size,
                                                     ''chunk_overlap'' \<mapsto> chunk_overlap)\<rparr>)
         (enumerate 0 chunked_docs)"

definition process_documents :: "doc_env \<Rightarrow> namespace \<Rightarrow> pyexc + document list" where
  "process_documents env opt =
     (case load_all_documents env opt of
        Inl e \<Rightarrow> Inl e
      | Inr raw_docs \<Rightarrow>
          (case clean_docs raw_docs [] of
             Inl e \<Rightarrow> Inl e
           | Inr cleaned_docs \<Rightarrow>
               (case attr opt ''chunk_size'' of
                  Inl e \<Rightarrow> Inl e
                | Inr chunk_size \<Rightarrow>
                    (case attr opt ''chunk_overlap'' of
                       Inl e \<Rightarrow> Inl e
                     | Inr chunk_overlap \<Rightarrow>
                         (case split_documents env chunk_size chunk_overlap cleaned_docs of
                            Inl e \<Rightarrow> Inl e
                          | Inr chunked_docs \<Rightarrow>
                              Inr (add_chunk_metadata chunk_size chunk_overlap chunked_docs))))))"

definition chunk_index :: "document \<Rightarrow> pyval option" where
  "chunk_index d = metadata d ''chunk_index''"

section \<open>options/base_options.py, options/train_options.py\<close>

text \<open>
  Every \<^verbatim>\<open>add_argument\<close> of the two \<^verbatim>\<open>initialize\<close> methods, as destination
  name and default value, in the order of the source.
\<close>

definition BaseOptions_defaults :: "(string \<times> pyval) list" where
  "BaseOptions_defaults =
     [(''LangChainAPIKey'', PStr ''<yoour-api-key>''),
      (''OpenAPIKey'', PStr ''<your-api-key>''),
      (''Neo4jURI'', PStr ''neo4j+s://your-neo4j-instance''),
      (''Neo4jUserName'', PStr ''your-username''),
      (''Neo4jPassword'', PStr ''your-password''),
      (''Neo4jDatabase'', PStr ''your-database'')]"

definition TrainOptions_defaults :: "(string \<times> pyval) list" where
  "TrainOptions_defaults = BaseOptions_defaults @
     [(''LLMProvider'', PList [PStr ''OpenAI'', PStr ''Antropic'', PStr ''Google'']),
      (''OpenAILLM'', PList [PStr ''gpt-4o'', PStr ''gpt-4o-mini'', PStr ''gpt-4'', PStr ''gpt-3.5-turbo'']),
      (''AntropicILLM'', PList [PStr ''claude-2'', PStr ''claude-instant-100k'', PStr ''claude-1'', PStr ''claude-1.3'']),
      (''GoogleLLM'', PList [PStr ''claude-2'', PStr ''claude-instant-100k'', PStr ''claude-1'', PStr ''claude-1.3'']),
      (''EmbeddingModel'', PStr ''OpenAI''),
      (''ChunkSize'', PInt 200),
      (''ChunkOverlap'', PInt 40),
      (''AllowedNodes'', PStr ''Patient,Disease,Medication,Test,Symptom,Doctor''),
      (''AllowedRelationships'', PList []),
      (''NodeProperties'', PBool False),
      (''RelationshipProperties'', PBool False),
      (''ClearGraph'', PBool True),
      (''NodeLabel'', PStr ''Patient''),
      (''TextNodeProperties'', PStr ''id,text''),
      (''EmbeddingNodeProperty'', PStr ''embedding''),
      (''VectorIndexName'', PStr ''vector_index''),
      (''KeywordIndexName'', PStr ''entity_index''),
      (''SearchType'', PStr ''hybrid'')]"

text \<open>
  \<^verbatim>\<open>TrainOptions().parse()\<close>. The command line is given as the map \<open>cli\<close> from
  destination names to the converted values it supplies; the namespace holds exactly
  the declared destinations, each with the supplied value or else its default.
  (A command line that \<^verbatim>\<open>argparse\<close> rejects ends the process and yields no
  namespace; that is not modelled.)
\<close>

definition parse :: "namespace \<Rightarrow> namespace" where
  "parse cli a =
     (case map_of TrainOptions_defaults a of
        None \<Rightarrow> None
      | Some d \<Rightarrow> (case cli a of None \<Rightarrow> Some d | Some v \<Rightarrow> Some v))"

section \<open>Library classes\<close>

text \<open>
  Importing a class from a third-party module and calling its constructor may each
  raise; \<open>None\<close> means success. A successful construction yields the object.
\<close>

record library =
  import_from :: "string \<Rightarrow> string \<Rightarrow> pyexc option"
  construct :: "string \<Rightarrow> (string \<times> pyval) list \<Rightarrow> pyexc option"

definition import_and_construct ::
  "library \<Rightarrow> string \<Rightarrow> string \<Rightarrow> (pyexc + (string \<times> pyval) list) \<Rightarrow> pyexc + pyval" where
  "import_and_construct lib module cls kwargs =
     (case import_from lib module cls of
        Some e \<Rightarrow> Inl e
      | None \<Rightarrow>
          (case kwargs of
             Inl e \<Rightarrow> Inl e
           | Inr kw \<Rightarrow>
               (case construct lib cls kw of Some e \<Rightarrow> Inl e | None \<Rightarrow> Inr (PObj cls kw))))"

text \<open>
  Keyword arguments read from the options, \<^verbatim>\<open>k=self._opt.a\<close>, evaluated left to
  right: the first missing attribute raises.
\<close>

fun opt_kwargs :: "namespace \<Rightarrow> (string \<times> string) list \<Rightarrow> pyexc + (string \<times> pyval) list" where
  "opt_kwargs opt [] = Inr []"
| "opt_kwargs opt ((k, a) # rest) =
     (case attr opt a of
        Inl e \<Rightarrow> Inl e
      | Inr v \<Rightarrow> (case opt_kwargs opt rest of Inl e \<Rightarrow> Inl e | Inr kw \<Rightarrow> Inr ((k, v) # kw)))"

section \<open>components/embeddings.py: GetEmbeddings\<close>

text \<open>The body of the \<^verbatim>\<open>try\<close> block of \<^verbatim>\<open>get_embedding_models\<close>.\<close>

definition embedding_try :: "library \<Rightarrow> namespace \<Rightarrow> pyval \<Rightarrow> pyexc + pyval" where
  "embedding_try lib opt embedding_name =
     (if embedding_name = PStr ''openai'' then
        import_and_construct lib ''langchain.embeddings'' ''OpenAIEmbeddings'' (Inr [])
      else if embedding_name = PStr ''cohere'' then
        import_and_construct lib ''langchain.embeddings'' ''CohereEmbeddings'' (Inr [])
      else if embedding_name = PStr ''google_palm'' then
        import_and_construct lib ''langchain.embeddings'' ''GooglePalmEmbeddings'' (Inr [])
      else if embedding_name = PStr ''vertexai'' then
        import_and_construct lib ''langchain.embeddings'' ''VertexAIEmbeddings'' (Inr [])
      else if embedding_name = PStr ''bedrock'' then
        import_and_construct lib ''langchain.embeddings'' ''BedrockEmbeddings'' (Inr [])
      else
        (case attr opt ''EmbeddingModel'' of
           Inl e \<Rightarrow> Inl e
         | Inr v \<Rightarrow> Inl (ValueError [Lit ''Unknown embedding provider: '', Val v])))"

text \<open>
  \<^verbatim>\<open>get_embedding_models\<close>. The \<^verbatim>\<open>raise ValueError\<close> of the unknown name stands
  inside the \<^verbatim>\<open>try\<close>, and \<^verbatim>\<open>except Exception\<close> turns whatever the block raises
  into a \<^verbatim>\<open>RuntimeError\<close>.
\<close>

definition get_embedding_models :: "library \<Rightarrow> namespace \<Rightarrow> pyval \<Rightarrow> pyexc + pyval" where
  "get_embedding_models lib opt embedding_name_arg =
     (let embedding_name =
            (if truthy embedding_name_arg then embedding_name_arg
             else getattr_default opt ''EmbeddingModel'' PNone)
      in if \<not> truthy embedding_name then
           Inl (ValueError
             [Lit ''No embedding provider specified (embedding_name or opt.EmbeddingModel).''])
         else
           (case embedding_try lib opt embedding_name of
              Inl e \<Rightarrow>
                Inl (RuntimeError [Lit ''Failed to initialize embeddings for '', Val embedding_name,
                                   Lit '': '', Exc e])
            | Inr embedding_model \<Rightarrow> Inr embedding_model))"

section \<open>components/llms.py: GetLLM\<close>

text \<open>
  \<^verbatim>\<open>model_name["gemini-pro", "gemini-1.5", "gemini-1.0"]\<close> subscripts the model name
  with a tuple. None of the values has a mapping type: a string and a list accept
  integers and slices only, the others are not subscriptable. The interpreter raises
  \<^verbatim>\<open>TypeError\<close> in each case.
\<close>

definition subscript_tuple :: "pyval \<Rightarrow> pyval list \<Rightarrow> pyexc + pyval" where
  "subscript_tuple v key = Inl (TypeError ''__getitem__'')"

definition chat_kwargs :: "namespace \<Rightarrow> string \<Rightarrow> pyval \<Rightarrow> pyexc + (string \<times> pyval) list" where
  "chat_kwargs opt first llm_name =
     (case opt_kwargs opt [(''temperature'', ''temperature''), (''max_tokens'', ''max_tokens''),
                           (''request_timeout'', ''timeout'')] of
        Inl e \<Rightarrow> Inl e
      | Inr kw \<Rightarrow> Inr ((first, llm_name) # kw))"

definition wrap_runtime :: "string \<Rightarrow> pyexc + 'a \<Rightarrow> pyexc + 'a" where
  "wrap_runtime prefix r =
     (case r of Inl e \<Rightarrow> Inl (RuntimeError [Lit prefix, Exc e]) | Inr x \<Rightarrow> Inr x)"

text \<open>
  The branches of \<^verbatim>\<open>get_chat_model\<close> once both names are known to be truthy.
  \<^verbatim>\<open>and\<close> evaluates its right operand only when the left one holds.
\<close>

definition chat_dispatch :: "library \<Rightarrow> namespace \<Rightarrow> pyval \<Rightarrow> pyval \<Rightarrow> pyexc + pyval" where
  "chat_dispatch lib opt llm_name model_name =
     (if llm_name = PStr ''openai'' \<and>
         model_name \<in> set [PStr ''gpt-4o'', PStr ''gpt-4o-mini'', PStr ''gpt-4'', PStr ''gpt-3.5-turbo'']
      then wrap_runtime ''Failed to initialize OpenAI LLM: ''
             (import_and_construct lib ''langchain.chat_models'' ''ChatOpenAI''
                (chat_kwargs opt ''model_name'' llm_name))
      else if llm_name = PStr ''antropic'' \<and>
         model_name \<in> set [PStr ''claude-2'', PStr ''claude-instant-100k'', PStr ''claude-1'', PStr ''claude-1.3'']
      then wrap_runtime ''Failed to initialize Anthropic LLM: ''
             (import_and_construct lib ''langchain.chat_models'' ''ChatAnthropic''
                (chat_kwargs opt ''model'' llm_name))
      else if llm_name = PStr ''google'' then
        (case subscript_tuple model_name [PStr ''gemini-pro'', PStr ''gemini-1.5'', PStr ''gemini-1.0''] of
           Inl e \<Rightarrow> Inl e
         | Inr found \<Rightarrow>
             if truthy found
             then wrap_runtime ''Failed to initialize Google Gemini LLM: ''
                    (import_and_construct lib ''langchain.chat_models'' ''ChatGoogleGemini''
                       (chat_kwargs opt ''model'' llm_name))
             else Inl (ValueError [Lit ''Unknown LLM provider: '', Val llm_name,
                                   Lit '' and model name: '', Val model_name]))
      else Inl (ValueError [Lit ''Unknown LLM provider: '', Val llm_name,
                            Lit '' and model name: '', Val model_name]))"

text \<open>
  \<^verbatim>\<open>get_chat_model(provider_name, model_name)\<close>; an omitted argument is \<open>PNone\<close>.
  The message of the first \<^verbatim>\<open>ValueError\<close> is a plain string in the source (no
  \<^verbatim>\<open>f\<close> prefix), braces included.
\<close>

definition get_chat_model :: "library \<Rightarrow> namespace \<Rightarrow> pyval \<Rightarrow> pyval \<Rightarrow> pyexc + pyval" where
  "get_chat_model lib opt provider_name model_name_arg =
     (case (if truthy provider_name then Inr provider_name
            else (case attr opt ''LLMProvider'' of
                    Inl e \<Rightarrow> Inl e
                  | Inr (PStr s) \<Rightarrow> Inr (PStr (lower s))
                  | Inr v \<Rightarrow> Inl (AttributeError (type_name v) ''lower''))) of
        Inl e \<Rightarrow> Inl e
      | Inr llm_name \<Rightarrow>
          (case (if truthy model_name_arg then Inr model_name_arg else attr opt ''LLMModel'') of
             Inl e \<Rightarrow> Inl e
           | Inr model_name \<Rightarrow>
               if \<not> truthy llm_name then
                 Inl (ValueError [Lit ''No LLM provider or modelname specified. Given llm name is {lm_name} and model_name is {model_name}).''])
               else if \<not> truthy model_name then
                 Inl (ValueError [Lit ''No LLM provider or modelname specified. Given llm name is {lm_name} and model_name is {model_name}).''])
               else chat_dispatch lib opt llm_name model_name))"

section \<open>components/graph_db.py: Neo4jStore\<close>

text \<open>Graph documents as the extraction library returns them.\<close>

datatype node = Node (node_id: string) (node_type: string)

datatype relationship = Relationship (rel_source: node) (rel_target: node) (rel_type: string)

record graph_document =
  gd_nodes :: "node list"
  gd_relationships :: "relationship list"
  gd_source :: document

text \<open>
  The database and the libraries that talk to it, with the database's content \<open>'db\<close>
  passed through each call: \<^verbatim>\<open>Neo4jGraph(...)\<close>, \<^verbatim>\<open>graph.query\<close>,
  \<^verbatim>\<open>graph.add_graph_documents\<close>, \<^verbatim>\<open>Neo4jVector.from_existing_graph\<close>,
  \<^verbatim>\<open>graph.get_schema()\<close>,
  \<^verbatim>\<open>LLMGraphTransformer(...).convert_to_graph_documents(docs)\<close> (the constructor's
  keyword arguments first) and the \<^verbatim>\<open>GraphCypherQAChain\<close> built and invoked
  by \<^verbatim>\<open>cypher_qa\<close>.
\<close>

record 'db external =
  neo4j_graph :: "(string \<times> pyval) list \<Rightarrow> 'db \<Rightarrow> pyexc option \<times> 'db"
  graph_query :: "pyval \<Rightarrow> string \<Rightarrow> 'db \<Rightarrow> pyexc option \<times> 'db"
  graph_add :: "pyval \<Rightarrow> graph_document list \<Rightarrow> bool \<Rightarrow> 'db \<Rightarrow> pyexc option \<times> 'db"
  from_existing_graph :: "(string \<times> pyval) list \<Rightarrow> 'db \<Rightarrow> pyexc option \<times> 'db"
  graph_schema :: "pyval \<Rightarrow> 'db \<Rightarrow> pyexc + string"
  convert_to_graph_documents ::
    "(string \<times> pyval) list \<Rightarrow> document list \<Rightarrow> pyexc + graph_document list"
  qa_invoke ::
    "pyval \<Rightarrow> pyval \<Rightarrow> bool \<Rightarrow> string \<Rightarrow> string \<Rightarrow> 'db \<Rightarrow> (pyexc + (string \<rightharpoonup> string)) \<times> 'db"

text \<open>
  A \<^verbatim>\<open>Neo4jStore\<close> object: \<^verbatim>\<open>__init__\<close> sets \<^verbatim>\<open>_opt\<close> and \<^verbatim>\<open>graph = None\<close>.
  The attribute \<^verbatim>\<open>vector\<close> exists only once \<^verbatim>\<open>create_hybrid_indexes\<close> has set it.
\<close>

record store =
  store_opt :: namespace
  graph :: pyval
  vector :: "pyval option"

definition Neo4jStore :: "namespace \<Rightarrow> store" where
  "Neo4jStore opt = \<lparr>store_opt = opt, graph = PNone, vector = None\<rparr>"

text \<open>\<^verbatim>\<open>_connection\<close>.\<close>

definition connection :: "'db external \<Rightarrow> store \<Rightarrow> 'db \<Rightarrow> (pyexc + pyval) \<times> store \<times> 'db" where
  "connection env st db =
     (case opt_kwargs (store_opt st)
             [(''url'', ''uri''), (''username'', ''username''), (''password'', ''password''),
              (''database'', ''database'')] of
        Inl e \<Rightarrow> (Inl (RuntimeError [Lit ''Failed to connect to Neo4j: '', Exc e]), st, db)
      | Inr kw \<Rightarrow>
          (case neo4j_graph env kw db of
             (Some e, db') \<Rightarrow> (Inl (RuntimeError [Lit ''Failed to connect to Neo4j: '', Exc e]), st, db')
           | (None, db') \<Rightarrow>
               (Inr (PObj ''Neo4jGraph'' kw), st\<lparr>graph := PObj ''Neo4jGraph'' kw\<rparr>, db')))"

text \<open>
  \<^verbatim>\<open>clear\<close> and \<^verbatim>\<open>add_graph_documents\<close> raise "Graph not connected" inside their
  \<^verbatim>\<open>try\<close>, so it leaves wrapped; \<^verbatim>\<open>create_hybrid_indexes\<close> checks before its
  \<^verbatim>\<open>try\<close>.
\<close>

definition clear :: "'db external \<Rightarrow> store \<Rightarrow> 'db \<Rightarrow> (pyexc + unit) \<times> store \<times> 'db" where
  "clear env st db =
     (if \<not> truthy (graph st) then
        (Inl (RuntimeError [Lit ''Failed to clear Neo4j database: '',
                            Exc (RuntimeError [Lit ''Graph not connected''])]), st, db)
      else
        (case graph_query env (graph st) ''MATCH (n) DETACH DELETE n;'' db of
           (Some e, db') \<Rightarrow>
             (Inl (RuntimeError [Lit ''Failed to clear Neo4j database: '', Exc e]), st, db')
         | (None, db') \<Rightarrow> (Inr (), st, db')))"

definition add_graph_documents ::
  "'db external \<Rightarrow> store \<Rightarrow> graph_document list \<Rightarrow> bool \<Rightarrow> 'db \<Rightarrow> (pyexc + unit) \<times> store \<times> 'db" where
  "add_graph_documents env st graph_documents include_source db =
     (if \<not> truthy (graph st) then
        (Inl (RuntimeError [Lit ''Failed to add documents to Neo4j: '',
                            Exc (RuntimeError [Lit ''Graph not connected''])]), st, db)
      else
        (case graph_add env (graph st) graph_documents include_source db of
           (Some e, db') \<Rightarrow>
             (Inl (RuntimeError [Lit ''Failed to add documents to Neo4j: '', Exc e]), st, db')
         | (None, db') \<Rightarrow> (Inr (), st, db')))"

definition create_hybrid_indexes ::
  "'db external \<Rightarrow> store \<Rightarrow> 'db \<Rightarrow> (pyexc + pyval) \<times> store \<times> 'db" where
  "create_hybrid_indexes env st db =
     (if \<not> truthy (graph st) then (Inl (RuntimeError [Lit ''Graph not connected.'']), st, db)
      else
        (case opt_kwargs (store_opt st)
                [(''embedding'', ''embeddings''), (''url'', ''uri''), (''username'', ''username''),
                 (''password'', ''password''), (''database'', ''database''),
                 (''node_label'', ''node_label''),
                 (''text_node_properties'', ''text_node_properties''),
                 (''embedding_node_property'', ''embedding_node_property''),
                 (''index_name'', ''index_name''),
                 (''keyword_index_name'', ''keyword_index_name''),
                 (''search_type'', ''search_type'')] of
           Inl e \<Rightarrow> (Inl (RuntimeError [Lit ''Failed to create hybrid indexes: '', Exc e]), st, db)
         | Inr kw \<Rightarrow>
             (case from_existing_graph env kw db of
                (Some e, db') \<Rightarrow>
                  (Inl (RuntimeError [Lit ''Failed to create hybrid indexes: '', Exc e]), st, db')
              | (None, db') \<Rightarrow>
                  (Inr (PObj ''Neo4jVector'' kw), st\<lparr>vector := Some (PObj ''Neo4jVector'' kw)\<rparr>, db'))))"

section \<open>components/knowledge_graph.py\<close>

definition transformer_kwargs :: "namespace \<Rightarrow> pyval \<Rightarrow> (string \<times> pyval) list" where
  "transformer_kwargs opt llm =
     [(''llm'', llm),
      (''allowed_nodes'', getattr_default opt ''allowed_nodes'' PNone),
      (''allowed_relationships'', getattr_default opt ''allowed_relationships'' PNone),
      (''node_properties'', getattr_default opt ''node_properties'' (PBool False)),
      (''relationship_properties'', getattr_default opt ''relationship_properties'' (PBool False))]"

definition create_knowledge_graph ::
  "'db external \<Rightarrow> document list \<Rightarrow> namespace \<Rightarrow> pyval \<Rightarrow> pyval \<Rightarrow> bool \<Rightarrow> 'db \<Rightarrow> (pyexc + nat) \<times> 'db" where
  "create_knowledge_graph env docs opt graph_arg llm include_source db =
     (if graph_arg = PNone then (Inl (RuntimeError [Lit ''Graph not connected'']), db)
      else
        (case convert_to_graph_documents env (transformer_kwargs opt llm) docs of
           Inl e \<Rightarrow> (Inl e, db)
         | Inr graph_documents \<Rightarrow>
             (case graph_add env graph_arg graph_documents include_source db of
                (Some e, db') \<Rightarrow> (Inl e, db')
              | (None, db') \<Rightarrow> (Inr (length graph_documents), db'))))"

text \<open>
  \<^verbatim>\<open>cypher_qa\<close>: the schema is read from the graph, the chain is built from the fixed
  prompt template and invoked; the answer is \<^verbatim>\<open>res.get("result", "")\<close>.
\<close>

definition cypher_qa ::
  "'db external \<Rightarrow> string \<Rightarrow> namespace \<Rightarrow> pyval \<Rightarrow> pyval \<Rightarrow> bool \<Rightarrow> 'db \<Rightarrow> (pyexc + string) \<times> 'db" where
  "cypher_qa env question opt graph_arg llm verbose db =
     (if graph_arg = PNone then (Inl (RuntimeError [Lit ''Graph not connected'']), db)
      else
        (case graph_schema env graph_arg db of
           Inl e \<Rightarrow> (Inl e, db)
         | Inr schema \<Rightarrow>
             (case qa_invoke env llm graph_arg verbose schema question db of
                (Inl e, db') \<Rightarrow> (Inl e, db')
              | (Inr res, db') \<Rightarrow> (Inr (case res ''result'' of None \<Rightarrow> [] | Some r \<Rightarrow> r), db'))))"

section \<open>train.py\<close>

text \<open>
  \<^verbatim>\<open>run()\<close>. Step 3 builds \<^verbatim>\<open>Neo4jStore(opt)\<close> and evaluates \<^verbatim>\<open>store.connect()\<close>.
  The class \<^verbatim>\<open>Neo4jStore\<close> defines \<^verbatim>\<open>__init__\<close>, \<^verbatim>\<open>_connection\<close>, \<^verbatim>\<open>clear\<close>,
  \<^verbatim>\<open>add_graph_documents\<close>, \<^verbatim>\<open>create_hybrid_indexes\<close>, \<^verbatim>\<open>similarity_search\<close> and
  \<^verbatim>\<open>hybrid_search\<close>, and its objects carry \<^verbatim>\<open>_opt\<close> and \<^verbatim>\<open>graph\<close>: the lookup of
  \<^verbatim>\<open>connect\<close> raises, whatever steps 1 and 2 returned. Steps 4 to 7 of the source follow
  that statement and are never executed.
\<close>

definition run :: "doc_env \<Rightarrow> namespace \<Rightarrow> pyexc + unit" where
  "run env cli =
     (let opt = parse cli in
      case process_documents env opt of
        Inl e \<Rightarrow> Inl e
      | Inr docs \<Rightarrow> Inl (AttributeError ''Neo4jStore'' ''connect''))"

section \<open>Specification predicates and concrete inputs\<close>

text \<open>
  During the scan a file before the one of interest is harmless when it is skipped
  (its extension is not allowed) or is a PDF that the loader reads.
\<close>

definition skipped_or_loaded :: "doc_env \<Rightarrow> string list \<Rightarrow> fpath \<Rightarrow> bool" where
  "skipped_or_loaded env exts q =
     (if lower (p_suffix q) \<in> set exts
      then lower (p_suffix q) = ''.pdf'' \<and> \<not> isl (load_pdf env q)
      else True)"

text \<open>
  A stand-in for the text splitter, for concrete runs only. It refuses an overlap larger
  than the chunk size, as the library's constructor does, and otherwise returns the
  documents as they are, one chunk each.
\<close>

definition passthrough_splitter :: "pyval \<Rightarrow> pyval \<Rightarrow> document list \<Rightarrow> pyexc + document list" where
  "passthrough_splitter chunk_size chunk_overlap docs =
     (case (chunk_size, chunk_overlap) of
        (PInt cs, PInt co) \<Rightarrow>
          if co > cs then Inl (LibraryError ''chunk overlap larger than chunk size'') else Inr docs
      | _ \<Rightarrow> Inl (LibraryError ''chunk size and overlap must be integers''))"

text \<open>The directory \<^verbatim>\<open>docs\<close> with a given listing and a given PDF loader.\<close>

definition directory :: "fpath list \<Rightarrow> (string \<Rightarrow> pyexc + document list) \<Rightarrow> doc_env" where
  "directory listing loader =
     \<lparr>dir_exists = (\<lambda>d. d = ''docs''), rglob = (\<lambda>d. if d = ''docs'' then listing else []),
      load_and_split = loader, split_documents = passthrough_splitter\<rparr>"

definition entry :: "string \<Rightarrow> string \<Rightarrow> fpath" where
  "entry stem ext = \<lparr>p_str = ''docs/'' @ stem @ ext, p_name = stem @ ext, p_suffix = ext\<rparr>"

text \<open>An options object as the docstring of \<^verbatim>\<open>DocumentProcessor\<close> requires it.\<close>

definition options :: "pyval list \<Rightarrow> int \<Rightarrow> int \<Rightarrow> namespace" where
  "options exts cs co =
     [''input_dir'' \<mapsto> PStr ''docs'', ''extensions'' \<mapsto> PList exts,
      ''chunk_size'' \<mapsto> PInt cs, ''chunk_overlap'' \<mapsto> PInt co]"

definition no_pdf :: "string \<Rightarrow> pyexc + document list" where
  "no_pdf p = Inl (LibraryError ''not a PDF'')"

definition one_page :: "string \<Rightarrow> string \<Rightarrow> pyexc + document list" where
  "one_page content p = Inr [\<lparr>page_content = content, metadata = [''page'' \<mapsto> PInt 0]\<rparr>]"

definition thousand :: string where
  "thousand = replicate 1000 CHR ''a''"

definition chunk :: "string \<Rightarrow> string \<Rightarrow> document" where
  "chunk src content = \<lparr>page_content = content, metadata = [''source'' \<mapsto> PStr src]\<rparr>"

text \<open>
  A stand-in for the extraction library, for concrete runs only. The candidate graph
  documents are fixed. A list passed as \<^verbatim>\<open>allowed_nodes\<close> is enforced: a node with
  another label is dropped, and so is a relationship with such an end. Without a list
  everything passes.
\<close>

definition restrict_labels :: "pyval list \<Rightarrow> graph_document \<Rightarrow> graph_document" where
  "restrict_labels labels gd =
     gd\<lparr>gd_nodes := filter (\<lambda>n. PStr (node_type n) \<in> set labels) (gd_nodes gd),
        gd_relationships :=
          filter (\<lambda>r. PStr (node_type (rel_source r)) \<in> set labels
                    \<and> PStr (node_type (rel_target r)) \<in> set labels) (gd_relationships gd)\<rparr>"

definition allowlist_transformer ::
  "graph_document list \<Rightarrow> (string \<times> pyval) list \<Rightarrow> document list \<Rightarrow> pyexc + graph_document list" where
  "allowlist_transformer candidates kw docs =
     (case map_of kw ''allowed_nodes'' of
        Some (PList labels) \<Rightarrow> Inr (map (restrict_labels labels) candidates)
      | _ \<Rightarrow> Inr candidates)"

text \<open>
  A database whose content is the list of the graph documents ingested so far, behind
  libraries that never fail.
\<close>

definition database :: "graph_document list \<Rightarrow> graph_document list external" where
  "database candidates =
     \<lparr>neo4j_graph = (\<lambda>kw db. (None, db)),
      graph_query = (\<lambda>g q db. (None, [])),
      graph_add = (\<lambda>g gds include_source db. (None, db @ gds)),
      from_existing_graph = (\<lambda>kw db. (None, db)),
      graph_schema = (\<lambda>g db. Inr ''Patient, Disease''),
      convert_to_graph_documents = allowlist_transformer candidates,
      qa_invoke = (\<lambda>llm g verbose schema question db. (Inr Map.empty, db))\<rparr>"

definition visit :: graph_document where
  "visit =
     \<lparr>gd_nodes = [Node ''Ann'' ''Patient'', Node ''Flu'' ''Disease'', Node ''Lee'' ''Doctor''],
      gd_relationships =
        [Relationship (Node ''Ann'' ''Patient'') (Node ''Flu'' ''Disease'') ''HAS'',
         Relationship (Node ''Ann'' ''Patient'') (Node ''Lee'' ''Doctor'') ''SEEN_BY''],
      gd_source = chunk ''a.pdf'' ''Ann has flu and was seen by Dr Lee.''\<rparr>"

definition neo :: pyval where
  "neo = PObj ''Neo4jGraph'' []"

definition gpt :: pyval where
  "gpt = PObj ''ChatOpenAI'' []"

definition installed :: library where
  "installed = \<lparr>import_from = (\<lambda>m c. None), construct = (\<lambda>c kw. None)\<rparr>"

section \<open>Properties\<close>

lemmas doc_defs = process_documents_def load_all_documents_def attr_def options_def
  getattr_default_def lower_def lower_char_def directory_def entry_def load_pdf_def
  one_page_def no_pdf_def

lemmas parse_defs = parse_def TrainOptions_defaults_def BaseOptions_defaults_def

subsection \<open>Chunk indices\<close>

text \<open>
  What step 4 does to a list of chunks: it numbers them 0, 1, 2, ... in order, one index
  per chunk, whichever documents they came from.
\<close>

lemma chunk_index_add:
  "map chunk_index (add_chunk_metadata cs co chunked)
     = map (\<lambda>i. Some (PInt (int i))) [0..<length chunked]"
  by (rule nth_equalityI) (simp_all add: add_chunk_metadata_def chunk_index_def nth_enumerate_eq)

lemma chunk_index_distinct:
  "distinct (map chunk_index (add_chunk_metadata cs co chunked))"
  unfolding chunk_index_add by (simp add: distinct_map inj_on_def)

lemma empty_run:
  "process_documents (directory [] no_pdf) (options [PStr ''.pdf''] 200 40) = Inr []"
  by (simp add: doc_defs passthrough_splitter_def add_chunk_metadata_def enumerate_eq_zip)


subsection \<open>One document of 1,000 characters\<close>

text \<open>
  Claim C2. The claim expects six chunks, indexed 0 to 5, from one text document of
  1,000 characters with \<^verbatim>\<open>chunk_size=200\<close> and \<^verbatim>\<open>chunk_overlap=40\<close>. On the code
  no chunk is produced: a \<^verbatim>\<open>.txt\<close> file stops the scan at the undefined
  \<^verbatim>\<open>_load_text\<close>, and the same 1,000 characters loaded as one PDF page stop the
  cleaning loop at the undefined \<^verbatim>\<open>_clean_text\<close>.
\<close>

theorem one_text_document_raises:
  "length thousand = 1000
   \<and> process_documents (directory [entry ''report'' ''.txt''] no_pdf)
        (options [PStr ''.txt''] 200 40)
      = Inl (AttributeError ''DocumentProcessor'' ''_load_text'')
   \<and> process_documents (directory [entry ''report'' ''.pdf''] (one_page thousand))
        (options [PStr ''.pdf''] 200 40)
      = Inl (AttributeError ''DocumentProcessor'' ''_clean_text'')"
  by (simp add: doc_defs thousand_def)

subsection \<open>Reassembling a document from its chunks\<close>

text \<open>
  Claim C3. The claim expects the chunks of every document to reassemble to its cleaned
  text. On the code a loaded document yields neither a cleaned text nor chunks: the run
  below, one short PDF page, ends in the \<^verbatim>\<open>AttributeError\<close> of the cleaning loop.
\<close>

theorem no_chunks_to_reassemble:
  "process_documents
     (directory [entry ''letter'' ''.pdf''] (one_page ''Dear reader, this is a short letter.''))
     (options [PStr ''.pdf''] 10 2)
   = Inl (AttributeError ''DocumentProcessor'' ''_clean_text'')"
  by (simp add: doc_defs)

subsection \<open>Overlap against chunk size\<close>

text \<open>
  The claim that an overlap not below the chunk size is refused with a configuration
  error fails: with both at 40 and nothing to load the run returns the empty list, and
  with overlap 200 over size 40 and one PDF page it ends in the \<^verbatim>\<open>AttributeError\<close>
  of the cleaning loop.
\<close>

theorem overlap_not_checked_counterexample:
  "process_documents (directory [] no_pdf) (options [PStr ''.pdf''] 40 40) = Inr []
   \<and> process_documents (directory [entry ''report'' ''.pdf''] (one_page thousand))
        (options [PStr ''.pdf''] 40 200)
      = Inl (AttributeError ''DocumentProcessor'' ''_clean_text'')"
  by (simp add: doc_defs thousand_def passthrough_splitter_def add_chunk_metadata_def
      enumerate_eq_zip)

text \<open>
  Claim C4, amended. \<^verbatim>\<open>process_documents\<close> never compares the overlap with the
  chunk size. Once loading and cleaning have succeeded, both values go to the splitter
  as they are: when the splitter accepts them its chunks are returned (indexed),
  whatever the order of the two values, and when it refuses them its own exception is
  passed on unchanged.
\<close>

theorem overlap_left_to_splitter:
  "(load_all_documents env opt = Inr [] \<and> opt ''chunk_size'' = Some cs
      \<and> opt ''chunk_overlap'' = Some co \<and> split_documents env cs co [] = Inr chunked
     \<longrightarrow> process_documents env opt = Inr (add_chunk_metadata cs co chunked))
   \<and> (load_all_documents env' opt' = Inr [] \<and> opt' ''chunk_size'' = Some cs'
      \<and> opt' ''chunk_overlap'' = Some co' \<and> split_documents env' cs' co' [] = Inl e
     \<longrightarrow> process_documents env' opt' = Inl e)"
  by (simp add: process_documents_def attr_def)

theorem overlap_left_to_splitter_witness:
  "process_documents (directory [] no_pdf) (options [PStr ''.pdf''] 40 40)
     = Inr (add_chunk_metadata (PInt 40) (PInt 40) [])
   \<and> process_documents (directory [] no_pdf) (options [PStr ''.pdf''] 40 200)
     = Inl (LibraryError ''chunk overlap larger than chunk size'')"
proof -
  have l: "load_all_documents (directory [] no_pdf) (options [PStr ''.pdf''] a b) = Inr []" for a b
    by (simp add: doc_defs)
  have s1: "split_documents (directory [] no_pdf) (PInt 40) (PInt 40) [] = Inr []"
    by (simp add: directory_def passthrough_splitter_def)
  have s2: "split_documents (directory [] no_pdf) (PInt 40) (PInt 200) []
              = Inl (LibraryError ''chunk overlap larger than chunk size'')"
    by (simp add: directory_def passthrough_splitter_def)
  have o: "options [PStr ''.pdf''] a b ''chunk_size'' = Some (PInt a)"
          "options [PStr ''.pdf''] a b ''chunk_overlap'' = Some (PInt b)" for a b
    by (simp_all add: options_def)
  show ?thesis
    using overlap_left_to_splitter [of "directory [] no_pdf" "options [PStr ''.pdf''] 40 40"
        "PInt 40" "PInt 40" "[]" "directory [] no_pdf" "options [PStr ''.pdf''] 40 200"
        "PInt 40" "PInt 200" "LibraryError ''chunk overlap larger than chunk size''"]
      l s1 s2 o by simp
qed

subsection \<open>Allowed node labels\<close>

text \<open>
  Claim C5. The options layer stores the allowed labels under \<^verbatim>\<open>AllowedNodes\<close>;
  \<^verbatim>\<open>create_knowledge_graph\<close> reads \<^verbatim>\<open>allowed_nodes\<close>. With
  \<^verbatim>\<open>--AllowedNodes Patient,Disease\<close> the transformer is therefore built with
  \<^verbatim>\<open>allowed_nodes=None\<close>, and a candidate node labelled \<^verbatim>\<open>Doctor\<close> is ingested,
  although the same extraction library drops it when the list reaches it.
\<close>

theorem allowed_nodes_option_ignored:
  "parse [''AllowedNodes'' \<mapsto> PStr ''Patient,Disease''] ''AllowedNodes''
     = Some (PStr ''Patient,Disease'')
   \<and> map_of (transformer_kwargs (parse [''AllowedNodes'' \<mapsto> PStr ''Patient,Disease'']) gpt)
        ''allowed_nodes''
       = Some PNone
   \<and> create_knowledge_graph (database [visit]) [gd_source visit]
        (parse [''AllowedNodes'' \<mapsto> PStr ''Patient,Disease'']) neo gpt True []
       = (Inr 1, [visit])
   \<and> Node ''Lee'' ''Doctor'' \<in> set (gd_nodes visit)
   \<and> create_knowledge_graph (database [visit]) [gd_source visit]
        [''allowed_nodes'' \<mapsto> PList [PStr ''Patient'', PStr ''Disease'']] neo gpt True []
       = (Inr 1, [visit\<lparr>gd_nodes := [Node ''Ann'' ''Patient'', Node ''Flu'' ''Disease''],
                         gd_relationships :=
                           [Relationship (Node ''Ann'' ''Patient'') (Node ''Flu'' ''Disease'') ''HAS'']\<rparr>])"
  by (simp add: parse_defs transformer_kwargs_def getattr_default_def create_knowledge_graph_def
      database_def allowlist_transformer_def restrict_labels_def visit_def neo_def gpt_def)

subsection \<open>Unknown embedding provider\<close>

text \<open>
  Claim C6. The docstring of \<^verbatim>\<open>get_embedding_models\<close> promises \<^verbatim>\<open>ValueError\<close>
  for a name that is not recognised and \<^verbatim>\<open>RuntimeError\<close> for a failed instantiation.
  The unknown name \<^verbatim>\<open>azure\<close> ends in a \<^verbatim>\<open>RuntimeError\<close>, the class of the
  instantiation failures, and so does the default \<^verbatim>\<open>OpenAI\<close> of the options, which
  differs from the recognised \<^verbatim>\<open>openai\<close> by its capitals.
\<close>

theorem unknown_embedding_is_runtime_error:
  "get_embedding_models installed (parse Map.empty) (PStr ''azure'')
     = Inl (RuntimeError [Lit ''Failed to initialize embeddings for '', Val (PStr ''azure''), Lit '': '',
                          Exc (ValueError [Lit ''Unknown embedding provider: '', Val (PStr ''OpenAI'')])])
   \<and> get_embedding_models installed (parse Map.empty) PNone
     = Inl (RuntimeError [Lit ''Failed to initialize embeddings for '', Val (PStr ''OpenAI''), Lit '': '',
                          Exc (ValueError [Lit ''Unknown embedding provider: '', Val (PStr ''OpenAI'')])])"
  by (simp add: get_embedding_models_def Let_def embedding_try_def attr_def getattr_default_def
      parse_defs)

subsection \<open>Provider and model outside the table\<close>

text \<open>
  Claim C7. The docstring of \<^verbatim>\<open>get_chat_model\<close> promises \<^verbatim>\<open>ValueError\<close> for an
  unsupported provider or model. With the provider \<^verbatim>\<open>google\<close> every model name, listed
  or not, ends in the \<^verbatim>\<open>TypeError\<close> of the subscript; the documented provider
  \<^verbatim>\<open>anthropic\<close> does get the \<^verbatim>\<open>ValueError\<close>.
\<close>

theorem google_model_is_type_error:
  "get_chat_model installed (parse Map.empty) (PStr ''google'') (PStr ''gemini-2'')
     = Inl (TypeError ''__getitem__'')
   \<and> get_chat_model installed (parse Map.empty) (PStr ''google'') (PStr ''gemini-pro'')
     = Inl (TypeError ''__getitem__'')
   \<and> get_chat_model installed (parse Map.empty) (PStr ''anthropic'') (PStr ''claude-3'')
     = Inl (ValueError [Lit ''Unknown LLM provider: '', Val (PStr ''anthropic''),
                        Lit '' and model name: '', Val (PStr ''claude-3'')])"
  by (simp add: get_chat_model_def chat_dispatch_def subscript_tuple_def)

subsection \<open>Operations on a store that is not connected\<close>

text \<open>
  Claim C8. While \<^verbatim>\<open>graph\<close> is \<^verbatim>\<open>None\<close>, clearing, ingesting (through the store and
  through \<^verbatim>\<open>create_knowledge_graph\<close>), building the indexes and reading the schema for
  a question each fail with the \<^verbatim>\<open>RuntimeError\<close> that reports "Graph not connected"
  (the not-connected error of the code, wrapped once by the two methods that raise it
  inside their \<^verbatim>\<open>try\<close>). None of them calls the database, and the store and the
  database are left as they were.
\<close>

theorem disconnected_operations_fail:
  "graph st = PNone \<Longrightarrow>
     clear env st db
       = (Inl (RuntimeError [Lit ''Failed to clear Neo4j database: '',
                             Exc (RuntimeError [Lit ''Graph not connected''])]), st, db)
   \<and> add_graph_documents env st graph_documents include_source db
       = (Inl (RuntimeError [Lit ''Failed to add documents to Neo4j: '',
                             Exc (RuntimeError [Lit ''Graph not connected''])]), st, db)
   \<and> create_knowledge_graph env docs opt (graph st) llm include_source db
       = (Inl (RuntimeError [Lit ''Graph not connected'']), db)
   \<and> create_hybrid_indexes env st db = (Inl (RuntimeError [Lit ''Graph not connected.'']), st, db)
   \<and> cypher_qa env question opt (graph st) llm verbose db
       = (Inl (RuntimeError [Lit ''Graph not connected'']), db)"
  by (simp add: clear_def add_graph_documents_def create_knowledge_graph_def
      create_hybrid_indexes_def cypher_qa_def)

theorem disconnected_operations_fail_witness:
  "graph (Neo4jStore (parse Map.empty)) = PNone
   \<and> clear (database [visit]) (Neo4jStore (parse Map.empty)) [visit]
       = (Inl (RuntimeError [Lit ''Failed to clear Neo4j database: '',
                             Exc (RuntimeError [Lit ''Graph not connected''])]),
          Neo4jStore (parse Map.empty), [visit])
   \<and> add_graph_documents (database [visit]) (Neo4jStore (parse Map.empty)) [visit] True [visit]
       = (Inl (RuntimeError [Lit ''Failed to add documents to Neo4j: '',
                             Exc (RuntimeError [Lit ''Graph not connected''])]),
          Neo4jStore (parse Map.empty), [visit])
   \<and> create_hybrid_indexes (database [visit]) (Neo4jStore (parse Map.empty)) [visit]
       = (Inl (RuntimeError [Lit ''Graph not connected.'']), Neo4jStore (parse Map.empty), [visit])
   \<and> cypher_qa (database [visit]) ''Who has flu?'' (parse Map.empty)
        (graph (Neo4jStore (parse Map.empty))) gpt True [visit]
       = (Inl (RuntimeError [Lit ''Graph not connected'']), [visit])"
proof -
  have g: "graph (Neo4jStore (parse Map.empty)) = PNone"
    by (simp add: Neo4jStore_def)
  show ?thesis
    using g disconnected_operations_fail [OF g, of "database [visit]" "[visit]" "[visit]" True
        "[]" "parse Map.empty" gpt "''Who has flu?''" True]
    by simp
qed

subsection \<open>The pipeline\<close>

lemma parse_input_dir: "parse cli ''input_dir'' = None"
  by (simp add: parse_defs)

text \<open>
  The claim that \<^verbatim>\<open>run()\<close> fails at the lookup of \<^verbatim>\<open>store.connect\<close> does not
  hold: with the default options over an empty directory the exception is another one.
\<close>

theorem run_connect_counterexample:
  "run (directory [] no_pdf) Map.empty \<noteq> Inl (AttributeError ''Neo4jStore'' ''connect'')"
  by (simp add: run_def process_documents_def load_all_documents_def attr_def parse_input_dir)

text \<open>
  Claim C9, amended. For every command line and every file system, \<^verbatim>\<open>run()\<close> raises
  \<^verbatim>\<open>AttributeError\<close> in step 2, before the store is built: the parsed options have no
  attribute \<^verbatim>\<open>input_dir\<close>, which \<^verbatim>\<open>process_documents\<close> reads first. The lookup
  of \<^verbatim>\<open>store.connect\<close> is never evaluated, and no run reaches ingestion, index
  construction or question answering.
\<close>

theorem run_stops_at_preprocessing:
  "run env cli = Inl (AttributeError ''Namespace'' ''input_dir'')"
  by (simp add: run_def process_documents_def load_all_documents_def attr_def parse_input_dir)

subsection \<open>The methods the class does not define\<close>

lemma scan_reaches_text:
  "list_all (skipped_or_loaded env exts) pre \<Longrightarrow>
   lower (p_suffix path) \<in> set exts \<Longrightarrow>
   lower (p_suffix path) \<in> set [''.txt'', ''.md''] \<Longrightarrow>
   scan env exts (pre @ path # post) documents
     = Inl (AttributeError ''DocumentProcessor'' ''_load_text'')"
proof (induction pre arbitrary: documents)
  case Nil
  then show ?case by auto
next
  case (Cons q pre)
  then show ?case
    by (auto simp: skipped_or_loaded_def split: if_splits sum.splits)
qed

lemma scan_never_returns:
  "path \<in> set paths \<Longrightarrow>
   lower (p_suffix path) \<in> set exts \<Longrightarrow>
   lower (p_suffix path) \<in> set [''.txt'', ''.md''] \<Longrightarrow>
   \<exists>e. scan env exts paths documents = Inl e"
proof (induction paths arbitrary: documents)
  case Nil
  then show ?case by simp
next
  case (Cons q paths)
  show ?case
  proof (cases "q = path")
    case True
    with Cons.prems show ?thesis by auto
  next
    case False
    with Cons.prems have "path \<in> set paths" by simp
    from Cons.IH [OF this Cons.prems(2,3)] show ?thesis
      by (auto split: sum.splits)
  qed
qed

lemma load_is_scan:
  "opt ''input_dir'' = Some (PStr d) \<Longrightarrow> dir_exists env d \<Longrightarrow>
   extension_set (getattr_default opt ''extensions'' (PList [PStr ''.pdf''])) = Inr exts \<Longrightarrow>
   load_all_documents env opt = scan env exts (rglob env d) []"
  by (simp add: load_all_documents_def attr_def)

lemma process_load_error:
  "load_all_documents env opt = Inl e \<Longrightarrow> process_documents env opt = Inl e"
  by (simp add: process_documents_def)

lemma process_nonempty:
  "load_all_documents env opt = Inr raw_docs \<Longrightarrow> raw_docs \<noteq> [] \<Longrightarrow>
   process_documents env opt = Inl (AttributeError ''DocumentProcessor'' ''_clean_text'')"
  by (cases raw_docs) (simp_all add: process_documents_def)

lemma process_returns_only_empty:
  "process_documents env opt = Inr chunks \<Longrightarrow> load_all_documents env opt = Inr []"
proof (cases "load_all_documents env opt")
  case (Inl e)
  assume "process_documents env opt = Inr chunks"
  with Inl show ?thesis by (simp add: process_documents_def)
next
  case (Inr raw_docs)
  assume p: "process_documents env opt = Inr chunks"
  show ?thesis
  proof (cases raw_docs)
    case Nil
    with Inr show ?thesis by simp
  next
    case (Cons d ds)
    with Inr p show ?thesis by (simp add: process_documents_def)
  qed
qed

text \<open>
  The claim that an allowed \<^verbatim>\<open>.txt\<close> file always makes loading raise
  \<^verbatim>\<open>AttributeError\<close> fails when a file with another allowed extension is met first:
  the scan ends there, in the \<^verbatim>\<open>ValueError\<close> of the unsupported extension.
\<close>

theorem text_file_counterexample:
  "load_all_documents (directory [entry ''notes'' ''.docx'', entry ''readme'' ''.txt''] no_pdf)
        (options [PStr ''.docx'', PStr ''.txt''] 200 40)
     = Inl (ValueError [Lit ''Unsupported file extension: '', Val (PStr ''.docx'')])"
  by (simp add: doc_defs)

text \<open>
  Claim C10, amended. (1) Whenever loading returns at least one document,
  \<^verbatim>\<open>process_documents\<close> raises \<^verbatim>\<open>AttributeError\<close> on the undefined
  \<^verbatim>\<open>_clean_text\<close>. (2) When the scan of an existing directory meets a \<^verbatim>\<open>.txt\<close> or
  \<^verbatim>\<open>.md\<close> file with an allowed extension and every file met before it was skipped or
  was a PDF that loaded, loading raises \<^verbatim>\<open>AttributeError\<close> on the undefined
  \<^verbatim>\<open>_load_text\<close>. (3) Wherever such a file stands in the scan, loading does not
  return: it raises, and \<^verbatim>\<open>process_documents\<close> raises the same exception. (4) So
  \<^verbatim>\<open>process_documents\<close> returns only when loading returned no document.
\<close>

theorem undefined_methods_raise:
  "(load_all_documents env1 opt1 = Inr raw_docs \<and> raw_docs \<noteq> []
      \<longrightarrow> process_documents env1 opt1 = Inl (AttributeError ''DocumentProcessor'' ''_clean_text''))
   \<and> (opt2 ''input_dir'' = Some (PStr d2) \<and> dir_exists env2 d2
        \<and> extension_set (getattr_default opt2 ''extensions'' (PList [PStr ''.pdf''])) = Inr exts2
        \<and> rglob env2 d2 = pre @ path2 # post
        \<and> list_all (skipped_or_loaded env2 exts2) pre
        \<and> lower (p_suffix path2) \<in> set exts2
        \<and> lower (p_suffix path2) \<in> set [''.txt'', ''.md'']
      \<longrightarrow> load_all_documents env2 opt2 = Inl (AttributeError ''DocumentProcessor'' ''_load_text'')
          \<and> process_documents env2 opt2 = Inl (AttributeError ''DocumentProcessor'' ''_load_text''))
   \<and> (opt3 ''input_dir'' = Some (PStr d3) \<and> dir_exists env3 d3
        \<and> extension_set (getattr_default opt3 ''extensions'' (PList [PStr ''.pdf''])) = Inr exts3
        \<and> path3 \<in> set (rglob env3 d3)
        \<and> lower (p_suffix path3) \<in> set exts3
        \<and> lower (p_suffix path3) \<in> set [''.txt'', ''.md'']
      \<longrightarrow> (\<exists>e. load_all_documents env3 opt3 = Inl e \<and> process_documents env3 opt3 = Inl e))
   \<and> (process_documents env4 opt4 = Inr chunks \<longrightarrow> load_all_documents env4 opt4 = Inr [])"
proof (intro conjI impI)
  assume "load_all_documents env1 opt1 = Inr raw_docs \<and> raw_docs \<noteq> []"
  then show "process_documents env1 opt1 = Inl (AttributeError ''DocumentProcessor'' ''_clean_text'')"
    using process_nonempty by blast
next
  assume a: "opt2 ''input_dir'' = Some (PStr d2) \<and> dir_exists env2 d2
        \<and> extension_set (getattr_default opt2 ''extensions'' (PList [PStr ''.pdf''])) = Inr exts2
        \<and> rglob env2 d2 = pre @ path2 # post
        \<and> list_all (skipped_or_loaded env2 exts2) pre
        \<and> lower (p_suffix path2) \<in> set exts2
        \<and> lower (p_suffix path2) \<in> set [''.txt'', ''.md'']"
  then have "load_all_documents env2 opt2 = scan env2 exts2 (pre @ path2 # post) []"
    using load_is_scan [of opt2 d2 env2 exts2] by simp
  with a show l: "load_all_documents env2 opt2 = Inl (AttributeError ''DocumentProcessor'' ''_load_text'')"
    using scan_reaches_text [of env2 exts2 pre path2 post "[]"] by simp
  show "process_documents env2 opt2 = Inl (AttributeError ''DocumentProcessor'' ''_load_text'')"
    using l by (rule process_load_error)
next
  assume a: "opt3 ''input_dir'' = Some (PStr d3) \<and> dir_exists env3 d3
        \<and> extension_set (getattr_default opt3 ''extensions'' (PList [PStr ''.pdf''])) = Inr exts3
        \<and> path3 \<in> set (rglob env3 d3)
        \<and> lower (p_suffix path3) \<in> set exts3
        \<and> lower (p_suffix path3) \<in> set [''.txt'', ''.md'']"
  then have l: "load_all_documents env3 opt3 = scan env3 exts3 (rglob env3 d3) []"
    using load_is_scan [of opt3 d3 env3 exts3] by simp
  from a obtain e where "scan env3 exts3 (rglob env3 d3) [] = Inl e"
    using scan_never_returns [of path3 "rglob env3 d3" exts3 env3 "[]"] by blast
  with l have "load_all_documents env3 opt3 = Inl e" by simp
  then show "\<exists>e. load_all_documents env3 opt3 = Inl e \<and> process_documents env3 opt3 = Inl e"
    using process_load_error by blast
next
  assume "process_documents env4 opt4 = Inr chunks"
  then show "load_all_documents env4 opt4 = Inr []"
    by (rule process_returns_only_empty)
qed

theorem undefined_methods_raise_witness:
  "load_all_documents (directory [entry ''report'' ''.pdf''] (one_page thousand))
        (options [PStr ''.pdf''] 200 40)
     = Inr [\<lparr>page_content = thousand,
              metadata = [''page'' \<mapsto> PInt 0, ''source'' \<mapsto> PStr ''docs/report.pdf'',
                          ''file_name'' \<mapsto> PStr ''report.pdf'']\<rparr>]
   \<and> process_documents (directory [entry ''report'' ''.pdf''] (one_page thousand))
        (options [PStr ''.pdf''] 200 40)
     = Inl (AttributeError ''DocumentProcessor'' ''_clean_text'')
   \<and> process_documents
        (directory [entry ''report'' ''.pdf'', entry ''README'' ''.MD''] (one_page thousand))
        (options [PStr ''.pdf'', PStr ''.md''] 200 40)
     = Inl (AttributeError ''DocumentProcessor'' ''_load_text'')
   \<and> (\<exists>e. process_documents
              (directory [entry ''notes'' ''.docx'', entry ''readme'' ''.txt''] no_pdf)
              (options [PStr ''.docx'', PStr ''.txt''] 200 40) = Inl e)
   \<and> process_documents (directory [] no_pdf) (options [PStr ''.pdf''] 200 40) = Inr []
   \<and> load_all_documents (directory [] no_pdf) (options [PStr ''.pdf''] 200 40) = Inr []"
proof -
  let ?e1 = "directory [entry ''report'' ''.pdf''] (one_page thousand)"
  let ?o1 = "options [PStr ''.pdf''] 200 40"
  let ?page = "\<lparr>page_content = thousand,
              metadata = [''page'' \<mapsto> PInt 0, ''source'' \<mapsto> PStr ''docs/report.pdf'',
                          ''file_name'' \<mapsto> PStr ''report.pdf'']\<rparr>"
  let ?e2 = "directory [entry ''report'' ''.pdf'', entry ''README'' ''.MD''] (one_page thousand)"
  let ?o2 = "options [PStr ''.pdf'', PStr ''.md''] 200 40"
  let ?e3 = "directory [entry ''notes'' ''.docx'', entry ''readme'' ''.txt''] no_pdf"
  let ?o3 = "options [PStr ''.docx'', PStr ''.txt''] 200 40"
  let ?e4 = "directory [] no_pdf"
  have h1: "load_all_documents ?e1 ?o1 = Inr [?page] \<and> [?page] \<noteq> []"
    by (simp add: doc_defs)
  have h2: "?o2 ''input_dir'' = Some (PStr ''docs'') \<and> dir_exists ?e2 ''docs''
        \<and> extension_set (getattr_default ?o2 ''extensions'' (PList [PStr ''.pdf'']))
            = Inr [''.pdf'', ''.md'']
        \<and> rglob ?e2 ''docs'' = [entry ''report'' ''.pdf''] @ entry ''README'' ''.MD'' # []
        \<and> list_all (skipped_or_loaded ?e2 [''.pdf'', ''.md'']) [entry ''report'' ''.pdf'']
        \<and> lower (p_suffix (entry ''README'' ''.MD'')) \<in> set [''.pdf'', ''.md'']
        \<and> lower (p_suffix (entry ''README'' ''.MD'')) \<in> set [''.txt'', ''.md'']"
    by (simp add: doc_defs skipped_or_loaded_def)
  have h3: "?o3 ''input_dir'' = Some (PStr ''docs'') \<and> dir_exists ?e3 ''docs''
        \<and> extension_set (getattr_default ?o3 ''extensions'' (PList [PStr ''.pdf'']))
            = Inr [''.docx'', ''.txt'']
        \<and> entry ''readme'' ''.txt'' \<in> set (rglob ?e3 ''docs'')
        \<and> lower (p_suffix (entry ''readme'' ''.txt'')) \<in> set [''.docx'', ''.txt'']
        \<and> lower (p_suffix (entry ''readme'' ''.txt'')) \<in> set [''.txt'', ''.md'']"
    by (simp add: doc_defs)
  have h4: "process_documents ?e4 ?o1 = Inr []"
    by (rule empty_run)
  show ?thesis
    using undefined_methods_raise [of ?e1 ?o1 "[?page]" ?o2 "''docs''" ?e2 "[''.pdf'', ''.md'']"
        "[entry ''report'' ''.pdf'']" "entry ''README'' ''.MD''" "[]"
        ?o3 "''docs''" ?e3 "[''.docx'', ''.txt'']" "entry ''readme'' ''.txt''" ?e4 ?o1 "[]"]
      h1 h2 h3 h4
    by blast
qed

end
